theory Spec2Isabelle
  imports Main "HOL-Library.Word" "HOL-Library.Sublist"
begin

section \<open>Data model of agent/config.go\<close>

text \<open>
  Go strings are byte sequences, as \<open>string\<close> is here; \<open>[]byte(s)\<close> reads the
  same bytes. Go's \<open>int\<close> is modelled as \<open>int\<close>: the functions below only copy and
  compare these numbers.
\<close>

type_synonym byte = "8 word"

definition bytes_of :: "string \<Rightarrow> byte list" where
  "bytes_of s = map of_char s"

text \<open>\<open>[32]byte\<close>, the result type of \<open>sha256.Sum256\<close>.\<close>

typedef digest = "{bs :: byte list. length bs = 32}"
  by (rule exI [of _ "replicate 32 0"]) simp

text \<open>\<open>hashed[:]\<close>: the array as a slice.\<close>

definition slice_of :: "digest \<Rightarrow> byte list" where
  "slice_of d = Rep_digest d"

record TCPAddr =
  IP :: "byte list"
  Port :: int
  Zone :: string

record bootstrap =
  Attempts :: int
  ReadOnly :: bool
  ArchiveDirectory :: string

record credentials =
  Mode :: string
  Directory :: string

record dnsBind =
  TTL :: "32 word"
  Frequency :: "64 word"

record awsBootstrap =
  AutoscalingGroups :: "string list"

text \<open>
  \<open>Config\<close>: a pointer field is an \<open>option\<close> (\<open>None\<close> is nil); a
  \<open>time.Duration\<close> is an int64.
\<close>

record Config =
  Name :: string
  Root :: string
  KeepN :: int
  MinimumNodes :: int
  Bootstrap :: bootstrap
  SnapshotFrequency :: "64 word"
  P2PBind :: "TCPAddr option"
  P2PAdvertised :: "TCPAddr option"
  AlternateBinds :: "TCPAddr option list"
  ClusterTokens :: "string list"
  ServerName :: string
  CA :: string
  CredentialsMode :: string
  CredentialsDir :: string
  Credentials :: credentials
  DNSBind :: dnsBind
  DNSBootstrap :: "string list"
  AWSBootstrap :: awsBootstrap

section \<open>Config.Sanitize\<close>

text \<open>
  The method has a value receiver: \<open>t\<close> is the callee's copy of the caller's
  value. The body is run statement by statement on its two local variables, so that what
  it leaves in \<open>t\<close> can be read off as well as what it returns.
\<close>

record Sanitize_locals =
  local_t :: Config
  local_dup :: Config

definition Sanitize_body :: "Config \<Rightarrow> Sanitize_locals" where
  "Sanitize_body c =
     (let l0 = \<lparr>local_t = c, local_dup = c\<rparr>;
          l1 = l0\<lparr>local_dup := (local_dup l0)\<lparr>ClusterTokens := []\<rparr>\<rparr>
      in l1)"

definition Sanitize :: "Config \<Rightarrow> Config" where
  "Sanitize c = local_dup (Sanitize_body c)"

section \<open>Config.Keyring\<close>

text \<open>
  The loop of \<open>Keyring\<close>: \<open>tokens = append(tokens, hashed[:])\<close> for each
  configured token, in order. \<open>sha256.Sum256\<close> is the parameter \<open>Sum256\<close>.
\<close>

fun hash_tokens :: "(byte list \<Rightarrow> digest) \<Rightarrow> string list \<Rightarrow> byte list list \<Rightarrow> byte list list" where
  "hash_tokens Sum256 [] tokens = tokens"
| "hash_tokens Sum256 (token # rest) tokens =
     hash_tokens Sum256 rest (tokens @ [slice_of (Sum256 (bytes_of token))])"

text \<open>
  \<open>Keyring\<close> returns what \<open>memberlist.NewKeyring(keys, primaryKey)\<close> returns;
  the constructor of the gossip library is the parameter \<open>NewKeyring\<close>. The
  \<open>switch len(tokens)\<close> keeps its three cases.
\<close>

definition Keyring :: "(byte list \<Rightarrow> digest) \<Rightarrow> (byte list list \<Rightarrow> byte list \<Rightarrow> 'r) \<Rightarrow> Config \<Rightarrow> 'r" where
  "Keyring Sum256 NewKeyring t =
     (let tokens = hash_tokens Sum256 (ClusterTokens t) []
      in case length tokens of
           0 \<Rightarrow> (let hashed = Sum256 (bytes_of (ServerName t)) in NewKeyring [] (slice_of hashed))
         | Suc 0 \<Rightarrow> NewKeyring [] (tokens ! 0)
         | Suc (Suc n) \<Rightarrow> NewKeyring (drop 1 tokens) (tokens ! 0))"

text \<open>The key derived from a string: the slice of its hash.\<close>

definition key_of :: "(byte list \<Rightarrow> digest) \<Rightarrow> string \<Rightarrow> byte list" where
  "key_of Sum256 s = slice_of (Sum256 (bytes_of s))"

text \<open>
  Modelled from the spec: the keyring constructor of the gossip library
  (\<open>memberlist.NewKeyring\<close>) is not under src/. Section 6 has the gossip layer accept
  a keyring of a primary key and legacy keys; section 4.1 has the construction reject a
  malformed key, one of the wrong length. The accepted lengths are those of an AES key:
  16, 24 or 32 bytes.
\<close>

datatype keyring_error = KeyDerivationError

record gossip_keyring =
  primary_key :: "byte list"
  legacy_keys :: "byte list list"

definition valid_key :: "byte list \<Rightarrow> bool" where
  "valid_key k = (length k = 16 \<or> length k = 24 \<or> length k = 32)"

definition gossip_NewKeyring :: "byte list list \<Rightarrow> byte list \<Rightarrow> keyring_error + gossip_keyring" where
  "gossip_NewKeyring keys primaryKey =
     (if list_all valid_key (primaryKey # keys)
      then Inr \<lparr>primary_key = primaryKey, legacy_keys = keys\<rparr>
      else Inl KeyDerivationError)"

section \<open>Errors, panics and the log\<close>

text \<open>
  An \<open>error\<close> value is the message it carries; \<open>errors.WithStack\<close> wraps one
  with the stack of its call, here the line of the call in the source.
  A nil pointer dereference is \<open>Panic\<close>. \<open>log.Println\<close> appends a line to the
  log, here the list of what was printed.
\<close>

datatype error = Error string | WithStack error nat

datatype 'a outcome = Panic | Returned 'a

datatype log_entry = Println string | Println_error string error

definition and_then :: "'a outcome \<Rightarrow> ('a \<Rightarrow> 'b outcome) \<Rightarrow> 'b outcome" where
  "and_then m f = (case m of Panic \<Rightarrow> Panic | Returned x \<Rightarrow> f x)"

section \<open>cmdopts.Peering: Join and p2ppeering\<close>

record Peering =
  BootstrapStatic :: "TCPAddr option list"
  DNSEnabled :: bool
  AWSEnabled :: bool
  GCloudEnabled :: bool

text \<open>
  The values of \<open>clustering.Source\<close> that \<open>Join\<close> builds: each constructor is the
  call or the struct literal of the source, with its arguments. \<open>'dl\<close> is the type of a
  dialer and \<open>'sn\<close> that of the snapshot \<open>peering.File\<close>.
\<close>

datatype ('dl, 'sn) Source =
    NewStaticTCP "TCPAddr option list"
  | NewDNS int "string list"
  | AWSAutoscaling int "string list"
  | GCloudTargetPool int int
  | P2P string 'dl
  | File 'sn

text \<open>\<open>strconv.Itoa\<close> and \<open>net.JoinHostPort\<close>.\<close>

definition digit_char :: "nat \<Rightarrow> char" where
  "digit_char d = char_of (48 + d)"

function decimal :: "nat \<Rightarrow> string" where
  "decimal n = (if n < 10 then [digit_char n] else decimal (n div 10) @ [digit_char (n mod 10)])"
  by pat_completeness auto
termination
  by (relation "measure (\<lambda>n. n)") auto

definition Itoa :: "int \<Rightarrow> string" where
  "Itoa i = (if i < 0 then CHR ''-'' # decimal (nat (- i)) else decimal (nat i))"

definition JoinHostPort :: "string \<Rightarrow> string \<Rightarrow> string" where
  "JoinHostPort host port =
     (if CHR '':'' \<in> set host then ''['' @ host @ '']:'' @ port else host @ '':'' @ port)"

text \<open>
  What \<open>p2ppeering\<close> calls outside this file, as parameters: the signer of the notary,
  the TLS configuration of the certificate cache (always asked for with
  \<open>tlsx.OptionNoClientCert\<close>), the dialer (given the address, \<open>tlsx.NewDialer\<close> of
  the TLS configuration and \<open>grpc.WithPerRPCCredentials\<close> of the signer),
  \<open>envx.String(fallback, key)\<close>, the constant \<open>bw.EnvAgentClusterP2PDiscoveryPort\<close>
  and \<open>agent.URIDiscovery\<close>.
\<close>

record ('sg, 'tl, 'dl) collaborators =
  NewAgentSigner :: "string \<Rightarrow> error + 'sg"
  TLSGenServer :: "Config \<Rightarrow> error + 'tl"
  DefaultDialer :: "string \<Rightarrow> 'tl \<Rightarrow> 'sg \<Rightarrow> error + 'dl"
  envx_String :: "string \<Rightarrow> string \<Rightarrow> string"
  EnvAgentClusterP2PDiscoveryPort :: string
  URIDiscovery :: "string \<Rightarrow> string"

text \<open>
  \<open>p2ppeering\<close>: the address is computed first, and \<open>c.P2PBind.Port\<close> panics on a
  nil \<open>P2PBind\<close>; then the three constructions, each returning its error at once.
\<close>

definition p2ppeering ::
  "('sg, 'tl, 'dl) collaborators \<Rightarrow> Config \<Rightarrow> (error + ('dl, 'sn) Source) outcome" where
  "p2ppeering env c =
     (case P2PBind c of
        None \<Rightarrow> Panic
      | Some bind \<Rightarrow>
          (let address = JoinHostPort (ServerName c)
                 (envx_String env (Itoa (Port bind)) (EnvAgentClusterP2PDiscoveryPort env))
           in Returned
               (case NewAgentSigner env (Root c) of
                  Inl err \<Rightarrow> Inl err
                | Inr ss \<Rightarrow>
                    (case TLSGenServer env c of
                       Inl err \<Rightarrow> Inl err
                     | Inr tlsconfig \<Rightarrow>
                         (case DefaultDialer env address tlsconfig ss of
                            Inl err \<Rightarrow> Inl err
                          | Inr d \<Rightarrow> Inr (P2P (URIDiscovery env address) d))))))"

text \<open>\<open>config.P2PBind.Port\<close>, which panics on a nil pointer.\<close>

definition P2PBind_Port :: "Config \<Rightarrow> int outcome" where
  "P2PBind_Port config = (case P2PBind config of None \<Rightarrow> Panic | Some bind \<Rightarrow> Returned (Port bind))"

text \<open>
  \<open>Join\<close>, statement by statement. It returns what it logged and what
  \<open>commandutils.ClusterJoin\<close>, the parameter \<open>ClusterJoin\<close>, returns for the context,
  the configuration, the joiner and the six sources in the order of the call:
  \<open>clipeers, p2ppeers, awspeers, gcloudpeers, snap, dnspeers\<close>.
\<close>

definition Join ::
  "('sg, 'tl, 'dl) collaborators \<Rightarrow> ('cx \<Rightarrow> Config \<Rightarrow> 'j \<Rightarrow> ('dl, 'sn) Source list \<Rightarrow> 'r)
     \<Rightarrow> Peering \<Rightarrow> 'cx \<Rightarrow> Config \<Rightarrow> 'j \<Rightarrow> 'sn \<Rightarrow> (log_entry list \<times> 'r) outcome" where
  "Join env ClusterJoin t ctx config c snap =
     (let clipeers = NewStaticTCP (BootstrapStatic t);
          awspeers0 = NewStaticTCP [];
          gcloudpeers0 = NewStaticTCP [];
          dnspeers0 = NewStaticTCP []
      in
      and_then (p2ppeering env config) (\<lambda>r.
      let (log1, p2ppeers) =
            (case r of
               Inl err \<Rightarrow> ([Println_error ''WARNING: P2P discovery disabled'' err], NewStaticTCP [])
             | Inr s \<Rightarrow> ([], s))
      in
      and_then
        (if DNSEnabled t
         then and_then (P2PBind_Port config) (\<lambda>port.
                Returned (log1 @ [Println ''dns peering enabled''],
                          NewDNS port (DNSBootstrap config @ [ServerName config])))
         else Returned (log1, dnspeers0)) (\<lambda>(log2, dnspeers).
      and_then
        (if AWSEnabled t
         then and_then (P2PBind_Port config) (\<lambda>port.
                Returned (log2 @ [Println ''aws autoscale groups peering enabled''],
                          AWSAutoscaling port (AutoscalingGroups (AWSBootstrap config))))
         else Returned (log2, awspeers0)) (\<lambda>(log3, awspeers).
      and_then
        (if GCloudEnabled t
         then and_then (P2PBind_Port config) (\<lambda>port.
                Returned (log3 @ [Println ''gcloud target pool peering enabled''],
                          GCloudTargetPool port (MinimumNodes config)))
         else Returned (log3, gcloudpeers0)) (\<lambda>(log4, gcloudpeers).
      Returned (log4,
        ClusterJoin ctx config c [clipeers, p2ppeers, awspeers, gcloudpeers, File snap, dnspeers]))))))"

text \<open>
  Modelled from the spec: \<open>commandutils.ClusterJoin\<close> is not under src/. Section 8 has
  the attempt order of the joiner verified by a source that records call order: the
  joiner consults the sources it is given one after the other, in the order of its
  arguments. This joiner returns that order.
\<close>

definition ClusterJoin_order :: "'cx \<Rightarrow> Config \<Rightarrow> 'j \<Rightarrow> ('dl, 'sn) Source list \<Rightarrow> ('dl, 'sn) Source list" where
  "ClusterJoin_order ctx config c sources = sources"

text \<open>The sources \<open>Join\<close> had the joiner attempt, none when it panicked.\<close>

definition attempts :: "(log_entry list \<times> ('dl, 'sn) Source list) outcome \<Rightarrow> ('dl, 'sn) Source list" where
  "attempts res = (case res of Panic \<Rightarrow> [] | Returned (lg, sources) \<Rightarrow> sources)"

text \<open>
  The order the specification states for the joiner, on a list of sources: no live
  discovery source (peer-to-peer, DNS, a cloud provider) stands before the snapshot.
\<close>

fun is_discovery :: "('dl, 'sn) Source \<Rightarrow> bool" where
  "is_discovery (NewDNS port names) = True"
| "is_discovery (AWSAutoscaling port groups) = True"
| "is_discovery (GCloudTargetPool port maximum) = True"
| "is_discovery (P2P address d) = True"
| "is_discovery (NewStaticTCP addrs) = False"
| "is_discovery (File snap) = False"

fun is_snapshot :: "('dl, 'sn) Source \<Rightarrow> bool" where
  "is_snapshot (File snap) = True"
| "is_snapshot (NewStaticTCP addrs) = False"
| "is_snapshot (NewDNS port names) = False"
| "is_snapshot (AWSAutoscaling port groups) = False"
| "is_snapshot (GCloudTargetPool port maximum) = False"
| "is_snapshot (P2P address d) = False"

fun snapshot_before_discovery :: "('dl, 'sn) Source list \<Rightarrow> bool" where
  "snapshot_before_discovery [] = True"
| "snapshot_before_discovery (s # rest) =
     (if is_discovery s then \<not> list_ex is_snapshot rest \<and> snapshot_before_discovery rest
      else snapshot_before_discovery rest)"

section \<open>The file system\<close>

text \<open>
  A path is the string it starts from and the names joined below it. The names this code
  joins are single path elements (\<open>raft.d\<close>, \<open>state.bin\<close>), so
  \<open>filepath.Join(p, name)\<close> is the entry \<open>name\<close> of \<open>p\<close>.
\<close>

type_synonym path = "string \<times> string list"

definition path_of :: "string \<Rightarrow> path" where
  "path_of s = (s, [])"

definition filepath_Join :: "path \<Rightarrow> string \<Rightarrow> path" where
  "filepath_Join p name = (fst p, snd p @ [name])"

text \<open>\<open>q\<close> is \<open>p\<close> or lies below it; \<open>p\<close> with the directories above it, top first.\<close>

definition beneath :: "path \<Rightarrow> path \<Rightarrow> bool" where
  "beneath p q = (fst q = fst p \<and> prefix (snd p) (snd q))"

definition lineage :: "path \<Rightarrow> path list" where
  "lineage p = map (Pair (fst p)) (prefixes (snd p))"

definition parent :: "path \<Rightarrow> path" where
  "parent p = (fst p, butlast (snd p))"

datatype node = Dir | Regular "byte list"

type_synonym tree = "path \<Rightarrow> node option"

text \<open>
  The calls that reach the file system, with the arguments of the call. The world is the
  files on disk, the failure the system has in store for each call (by the number of the
  call: \<open>None\<close> lets it run), and the calls made so far, each with the error it
  returned. A call that fails leaves the files as they were.
\<close>

datatype fsop =
    OpRemoveAll path
  | OpMkdirAll path nat
  | OpRaftStoreFilepath path
  | OpNewFileSnapshotStore path int
  | OpNewProtocol

record world =
  files :: tree
  faults :: "nat \<Rightarrow> error option"
  calls :: "(fsop \<times> error option) list"

definition perform :: "fsop \<Rightarrow> (tree \<Rightarrow> error + tree) \<Rightarrow> world \<Rightarrow> error option \<times> world" where
  "perform op effect w =
     (case (case faults w (length (calls w)) of
              Some err \<Rightarrow> Inl err
            | None \<Rightarrow> effect (files w)) of
        Inl err \<Rightarrow> (Some err, w\<lparr>calls := calls w @ [(op, Some err)]\<rparr>)
      | Inr fs \<Rightarrow> (None, w\<lparr>files := fs, calls := calls w @ [(op, None)]\<rparr>))"

text \<open>
  \<open>os.RemoveAll\<close> removes the path and everything below it, and succeeds on a path
  that does not exist. \<open>os.MkdirAll\<close> creates the directory and every missing parent,
  leaves an existing directory as it is, and fails when the path or a parent is a file.
\<close>

definition os_RemoveAll :: "path \<Rightarrow> world \<Rightarrow> error option \<times> world" where
  "os_RemoveAll p = perform (OpRemoveAll p) (\<lambda>fs. Inr (\<lambda>q. if beneath p q then None else fs q))"

definition is_regular :: "node option \<Rightarrow> bool" where
  "is_regular n = (case n of Some (Regular content) \<Rightarrow> True | Some Dir \<Rightarrow> False | None \<Rightarrow> False)"

definition mkdir_all :: "path \<Rightarrow> tree \<Rightarrow> error + tree" where
  "mkdir_all p fs =
     (if list_ex (\<lambda>q. is_regular (fs q)) (lineage p) then Inl (Error ''not a directory'')
      else Inr (\<lambda>q. if q \<in> set (lineage p) \<and> fs q = None then Some Dir else fs q))"

definition os_MkdirAll :: "path \<Rightarrow> nat \<Rightarrow> world \<Rightarrow> error option \<times> world" where
  "os_MkdirAll p perm = perform (OpMkdirAll p perm) (mkdir_all p)"

section \<open>cmdopts.Peering.Raft and its passive reset\<close>

text \<open>
  Modelled from the spec: \<open>commandutils.RaftStoreFilepath\<close> and
  \<open>raft.NewFileSnapshotStore\<close> are not under src/. Section 4.5 has the callback
  reconstruct a fresh log store and a fresh snapshot store bounded to a retained-snapshot
  count; section 6 has the storage directory contain a log store and the retained
  snapshot files. The log store opens the file at its path, creating an empty one when
  there is none, in a directory that exists. The snapshot store keeps its files in the
  directory \<open>snapshots\<close> of its base, which it creates, and must retain at least one
  snapshot.
\<close>

datatype Storage = BoltStore path

record SnapshotStore =
  snapshot_dir :: path
  retain :: int

definition open_store :: "path \<Rightarrow> tree \<Rightarrow> error + tree" where
  "open_store p fs =
     (if fs (parent p) \<noteq> Some Dir then Inl (Error ''no such file or directory'')
      else case fs p of
             Some Dir \<Rightarrow> Inl (Error ''is a directory'')
           | Some (Regular content) \<Rightarrow> Inr fs
           | None \<Rightarrow> Inr (fs(p \<mapsto> Regular [])))"

definition RaftStoreFilepath :: "path \<Rightarrow> world \<Rightarrow> (error + Storage) \<times> world" where
  "RaftStoreFilepath p w =
     (case perform (OpRaftStoreFilepath p) (open_store p) w of
        (Some err, w') \<Rightarrow> (Inl err, w')
      | (None, w') \<Rightarrow> (Inr (BoltStore p), w'))"

definition NewFileSnapshotStore :: "path \<Rightarrow> int \<Rightarrow> world \<Rightarrow> (error + SnapshotStore) \<times> world" where
  "NewFileSnapshotStore base n w =
     (case perform (OpNewFileSnapshotStore base n)
             (\<lambda>fs. if n < 1 then Inl (Error ''must retain at least one snapshot'')
                   else mkdir_all (filepath_Join base ''snapshots'') fs) w of
        (Some err, w') \<Rightarrow> (Inl err, w')
      | (None, w') \<Rightarrow> (Inr \<lparr>snapshot_dir = filepath_Join base ''snapshots'', retain = n\<rparr>, w'))"

text \<open>
  Modelled from the spec: \<open>errorsx.Compact\<close> is not under src/. Section 4.5 has a
  failure of the reset surfaced as a composed error that identifies the failing step:
  of the errors it is given, \<open>Compact\<close> returns the first that is not nil, and nil when
  there is none.
\<close>

fun Compact :: "error option list \<Rightarrow> error option" where
  "Compact [] = None"
| "Compact (None # errs) = Compact errs"
| "Compact (Some err # errs) = Some err"

text \<open>
  The callback handed to \<open>raftutil.ProtocolOptionPassiveReset\<close>, a closure over
  \<open>dir\<close>. Go evaluates the two arguments of \<open>errorsx.Compact\<close> from left to right
  before the call: \<open>os.MkdirAll\<close> runs whatever \<open>os.RemoveAll\<close> returned. The
  permission \<open>0700\<close> is 448.
\<close>

definition passive_reset :: "path \<Rightarrow> world \<Rightarrow> (error + Storage \<times> SnapshotStore) \<times> world" where
  "passive_reset dir w =
     (let (err1, w1) = os_RemoveAll dir w;
          (err2, w2) = os_MkdirAll dir 448 w1
      in case Compact [err1, err2] of
           Some err \<Rightarrow> (Inl (WithStack err 451), w2)
         | None \<Rightarrow>
             (case RaftStoreFilepath (filepath_Join dir ''state.bin'') w2 of
                (Inl err, w3) \<Rightarrow> (Inl (WithStack err 455), w3)
              | (Inr s, w3) \<Rightarrow>
                  (case NewFileSnapshotStore dir 5 w3 of
                     (Inl err, w4) \<Rightarrow> (Inl (WithStack err 459), w4)
                   | (Inr ss, w4) \<Rightarrow> (Inr (s, ss), w4))))"








text \<open>
  \<open>Raft\<close>: the directory is \<open>raft.d\<close> under the root of the configuration; when it
  cannot be created the error is returned at once; the three options of \<open>Raft\<close> come
  before those of the caller.
\<close>

definition raft_dir :: "Config \<Rightarrow> path" where
  "raft_dir conf = filepath_Join (path_of (Root conf)) ''raft.d''"


text \<open>
  The calls made between two worlds; the steps of the reset, in the order of the source;
  the position and the error of the first call that failed.
\<close>

definition calls_since :: "world \<Rightarrow> world \<Rightarrow> (fsop \<times> error option) list" where
  "calls_since w w' = drop (length (calls w)) (calls w')"

definition reset_steps :: "path \<Rightarrow> fsop list" where
  "reset_steps dir =
     [OpRemoveAll dir, OpMkdirAll dir 448, OpRaftStoreFilepath (filepath_Join dir ''state.bin''),
      OpNewFileSnapshotStore dir 5]"

fun first_failure :: "nat \<Rightarrow> (fsop \<times> error option) list \<Rightarrow> (nat \<times> error) option" where
  "first_failure i [] = None"
| "first_failure i ((op, None) # evs) = first_failure (Suc i) evs"
| "first_failure i ((op, Some err) # evs) = Some (i, err)"

text \<open>
  Modelled from the spec: the snapshot store of the raft library is not under src/.
  Section 4.5 has the store bounded to a retained-snapshot count (keep the last 5);
  section 6 has the storage directory contain up to 5 retained snapshot files. The store
  keeps each snapshot as a file of its directory. Writing a snapshot puts its file
  there, newest first in the list of the snapshots kept, and then removes the files of
  the snapshots beyond the retained count, the oldest ones.
\<close>

definition write_snapshot ::
  "SnapshotStore \<Rightarrow> string \<times> byte list \<Rightarrow> string list \<times> tree \<Rightarrow> string list \<times> tree" where
  "write_snapshot ss snapshot st =
     (let (name, content) = snapshot;
          (names, fs) = st;
          written = fs(filepath_Join (snapshot_dir ss) name \<mapsto> Regular content);
          newest_first = name # removeAll name names;
          reaped = drop (nat (retain ss)) newest_first
      in (take (nat (retain ss)) newest_first,
          (\<lambda>q. if q \<in> filepath_Join (snapshot_dir ss) ` set reaped then None else written q)))"

fun write_snapshots ::
  "SnapshotStore \<Rightarrow> (string \<times> byte list) list \<Rightarrow> string list \<times> tree \<Rightarrow> string list \<times> tree" where
  "write_snapshots ss [] st = st"
| "write_snapshots ss (snapshot # rest) st = write_snapshots ss rest (write_snapshot ss snapshot st)"

text \<open>
  The snapshot files of a store: what exists below its directory. A list of names indexes
  them when it has no more names than the store retains and names exactly these files.
\<close>

definition snapshot_files :: "SnapshotStore \<Rightarrow> tree \<Rightarrow> path set" where
  "snapshot_files ss fs = {q. beneath (snapshot_dir ss) q \<and> q \<noteq> snapshot_dir ss \<and> fs q \<noteq> None}"

definition indexed :: "SnapshotStore \<Rightarrow> string list \<times> tree \<Rightarrow> bool" where
  "indexed ss st =
     (distinct (fst st) \<and> length (fst st) \<le> nat (retain ss)
      \<and> snapshot_files ss (snd st) = filepath_Join (snapshot_dir ss) ` set (fst st))"

text \<open>The system has no failure in store for the next \<open>k\<close> calls.\<close>

definition no_fault_ahead :: "nat \<Rightarrow> world \<Rightarrow> bool" where
  "no_fault_ahead k w = list_all (\<lambda>i. faults w (length (calls w) + i) = None) [0..<k]"

text \<open>The files of a freshly reset storage directory.\<close>

definition fresh_storage :: "path \<Rightarrow> tree" where
  "fresh_storage dir q =
     (if q = dir then Some Dir
      else if q = filepath_Join dir ''state.bin'' then Some (Regular [])
      else if q = filepath_Join dir ''snapshots'' then Some Dir
      else None)"

section \<open>Example inputs\<close>

text \<open>
  A configuration: the defaults of \<open>NewConfig\<close> on a host named \<open>node1\<close>,
  bound to port 2000, with the server name \<open>prod-cluster\<close> and no token.
\<close>

definition example_config :: Config where
  "example_config =
     \<lparr>Name = ''node1'', Root = ''/var/cache/bearded-wookie'', KeepN = 3, MinimumNodes = 3,
      Bootstrap = \<lparr>Attempts = 2147483647, ReadOnly = False, ArchiveDirectory = []\<rparr>,
      SnapshotFrequency = 3600000000000,
      P2PBind = Some \<lparr>IP = [127, 0, 0, 1], Port = 2000, Zone = []\<rparr>,
      P2PAdvertised = None, AlternateBinds = [], ClusterTokens = [],
      ServerName = ''prod-cluster'', CA = [], CredentialsMode = [], CredentialsDir = [],
      Credentials = \<lparr>Mode = [], Directory = []\<rparr>,
      DNSBind = \<lparr>TTL = 60, Frequency = 3600000000000\<rparr>,
      DNSBootstrap = [], AWSBootstrap = \<lparr>AutoscalingGroups = []\<rparr>\<rparr>"

text \<open>
  Collaborators that build every part of the peer-to-peer source, and the same with no
  signing key under the root directory; a command line that enables no discovery.
\<close>

definition working_collaborators :: "(string, string, string) collaborators" where
  "working_collaborators =
     \<lparr>NewAgentSigner = (\<lambda>root. Inr root), TLSGenServer = (\<lambda>c. Inr (ServerName c)),
      DefaultDialer = (\<lambda>address tlsconfig ss. Inr address),
      envx_String = (\<lambda>fallback key. fallback),
      EnvAgentClusterP2PDiscoveryPort = ''BEARDED_WOOKIE_AGENT_DISCOVERY_PORT'',
      URIDiscovery = (\<lambda>address. address)\<rparr>"

definition missing_credentials :: "(string, string, string) collaborators" where
  "missing_credentials = working_collaborators\<lparr>NewAgentSigner := (\<lambda>root. Inl (Error ''no signing key''))\<rparr>"

definition no_peering :: Peering where
  "no_peering = \<lparr>BootstrapStatic = [], DNSEnabled = False, AWSEnabled = False, GCloudEnabled = False\<rparr>"


definition stale_disk :: world where
  "stale_disk =
     \<lparr>files =
        [path_of (Root example_config) \<mapsto> Dir,
         raft_dir example_config \<mapsto> Dir,
         filepath_Join (raft_dir example_config) ''state.bin'' \<mapsto> Regular [1, 2, 3],
         filepath_Join (raft_dir example_config) ''snapshots'' \<mapsto> Dir,
         filepath_Join (filepath_Join (raft_dir example_config) ''snapshots'') ''2-17-1700000000000''
           \<mapsto> Regular [9]],
      faults = (\<lambda>n. None), calls = []\<rparr>"



definition six_snapshots :: "(string \<times> byte list) list" where
  "six_snapshots =
     [(''1-10'', [1]), (''1-20'', [2]), (''2-30'', [3]), (''2-40'', [4]), (''3-50'', [5]),
      (''3-60'', [6])]"

text \<open>A stand-in for the hash in examples: the theorems hold for every \<open>Sum256\<close>.\<close>

definition example_Sum256 :: "byte list \<Rightarrow> digest" where
  "example_Sum256 bs = Abs_digest (replicate 32 (of_nat (length bs)))"

section \<open>Theorems\<close>

lemma hash_tokens_map:
  "hash_tokens Sum256 ts acc = acc @ map (key_of Sum256) ts"
  by (induction ts arbitrary: acc) (simp_all add: key_of_def)

lemma length_slice_of: "length (slice_of d) = 32"
  using Rep_digest [of d] by (simp add: slice_of_def)

lemma length_key_of: "length (key_of Sum256 s) = 32"
  by (simp add: key_of_def length_slice_of)

lemma Keyring_cases:
  "Keyring Sum256 NewKeyring t =
     (case ClusterTokens t of
        [] \<Rightarrow> NewKeyring [] (key_of Sum256 (ServerName t))
      | [a] \<Rightarrow> NewKeyring [] (key_of Sum256 a)
      | a # b # ts \<Rightarrow> NewKeyring (map (key_of Sum256) (b # ts)) (key_of Sum256 a))"
  by (simp add: Keyring_def hash_tokens_map key_of_def split: list.splits)

subsection \<open>Config.Sanitize\<close>

text \<open>
  C10: for every configuration \<open>c\<close>, \<open>c.Sanitize()\<close> returns a copy whose
  \<open>ClusterTokens\<close> is the empty slice and whose every other field is the field of
  \<open>c\<close>; the receiver is as it was when the body ends.
\<close>

theorem Sanitize_clears_only_tokens:
  "ClusterTokens (Sanitize c) = []
   \<and> Name (Sanitize c) = Name c
   \<and> Root (Sanitize c) = Root c
   \<and> KeepN (Sanitize c) = KeepN c
   \<and> MinimumNodes (Sanitize c) = MinimumNodes c
   \<and> Bootstrap (Sanitize c) = Bootstrap c
   \<and> SnapshotFrequency (Sanitize c) = SnapshotFrequency c
   \<and> P2PBind (Sanitize c) = P2PBind c
   \<and> P2PAdvertised (Sanitize c) = P2PAdvertised c
   \<and> AlternateBinds (Sanitize c) = AlternateBinds c
   \<and> ServerName (Sanitize c) = ServerName c
   \<and> CA (Sanitize c) = CA c
   \<and> CredentialsMode (Sanitize c) = CredentialsMode c
   \<and> CredentialsDir (Sanitize c) = CredentialsDir c
   \<and> Credentials (Sanitize c) = Credentials c
   \<and> DNSBind (Sanitize c) = DNSBind c
   \<and> DNSBootstrap (Sanitize c) = DNSBootstrap c
   \<and> AWSBootstrap (Sanitize c) = AWSBootstrap c
   \<and> local_t (Sanitize_body c) = c"
  by (simp add: Sanitize_def Sanitize_body_def)

subsection \<open>Config.Keyring\<close>

text \<open>
  C2: with more than one token configured, the keyring is built from the hash of the
  first token as primary key and the hashes of the remaining tokens, in order, as legacy
  keys: one key fewer than tokens, each of 32 bytes, which the keyring construction
  accepts. For the tokens \<open>new, old\<close> the primary key is the hash of \<open>new\<close> and
  the only legacy key the hash of \<open>old\<close>.
\<close>

theorem Keyring_first_token_primary:
  assumes "1 < length (ClusterTokens t)"
  shows "Keyring Sum256 NewKeyring t =
           NewKeyring (map (key_of Sum256) (tl (ClusterTokens t)))
             (key_of Sum256 (hd (ClusterTokens t)))
         \<and> length (map (key_of Sum256) (tl (ClusterTokens t))) = length (ClusterTokens t) - 1
         \<and> length (key_of Sum256 (hd (ClusterTokens t))) = 32
         \<and> Keyring Sum256 gossip_NewKeyring t =
             Inr \<lparr>primary_key = key_of Sum256 (hd (ClusterTokens t)),
                  legacy_keys = map (key_of Sum256) (tl (ClusterTokens t))\<rparr>
         \<and> Keyring Sum256 NewKeyring (t\<lparr>ClusterTokens := [''new'', ''old'']\<rparr>) =
             NewKeyring [key_of Sum256 ''old''] (key_of Sum256 ''new'')"
proof -
  from assms obtain a b ts where tok: "ClusterTokens t = a # b # ts"
    by (cases "ClusterTokens t"; cases "tl (ClusterTokens t)") auto
  have ok: "list_all valid_key (key_of Sum256 a # map (key_of Sum256) (b # ts))"
    by (simp add: list_all_iff valid_key_def length_key_of)
  show ?thesis
    using ok by (simp add: Keyring_cases tok gossip_NewKeyring_def length_key_of)
qed

theorem Keyring_first_token_primary_witness:
  "1 < length (ClusterTokens (example_config\<lparr>ClusterTokens := [''new'', ''old'']\<rparr>))
   \<and> Keyring example_Sum256 Pair (example_config\<lparr>ClusterTokens := [''new'', ''old'']\<rparr>) =
       ([key_of example_Sum256 ''old''], key_of example_Sum256 ''new'')"
  using Keyring_first_token_primary
    [of "example_config\<lparr>ClusterTokens := [''new'', ''old'']\<rparr>" example_Sum256 Pair]
  by simp

text \<open>
  C3: with no token configured, \<open>Keyring\<close> has no failure of its own: it builds the
  keyring from the hash of the server name as primary key and no legacy key; the key has
  32 bytes, and the keyring construction accepts it.
\<close>

theorem Keyring_no_tokens:
  assumes "ClusterTokens t = []"
  shows "Keyring Sum256 NewKeyring t = NewKeyring [] (key_of Sum256 (ServerName t))
         \<and> length (key_of Sum256 (ServerName t)) = 32
         \<and> Keyring Sum256 gossip_NewKeyring t =
             Inr \<lparr>primary_key = key_of Sum256 (ServerName t), legacy_keys = []\<rparr>"
  using assms
  by (simp add: Keyring_cases gossip_NewKeyring_def valid_key_def length_key_of)

theorem Keyring_no_tokens_witness:
  "ClusterTokens example_config = []
   \<and> Keyring example_Sum256 gossip_NewKeyring example_config =
       Inr \<lparr>primary_key = key_of example_Sum256 ''prod-cluster'', legacy_keys = []\<rparr>"
proof -
  have tokens: "ClusterTokens example_config = []"
    and name: "ServerName example_config = ''prod-cluster''"
    by (simp_all add: example_config_def)
  from Keyring_no_tokens [OF tokens, of example_Sum256 gossip_NewKeyring, unfolded name] tokens
  show ?thesis by blast
qed

text \<open>
  C8: every key \<open>Keyring\<close> hands to the keyring construction, the primary key and
  each legacy key, is the 32-byte hash of a configured token or of the server name.
  The construction is replaced by \<open>Pair\<close>, which returns its two arguments.
\<close>

theorem Keyring_passes_only_hashes:
  "set (snd (Keyring Sum256 Pair t) # fst (Keyring Sum256 Pair t))
     \<subseteq> key_of Sum256 ` (set (ClusterTokens t) \<union> {ServerName t})
   \<and> list_all (\<lambda>k. length k = 32) (snd (Keyring Sum256 Pair t) # fst (Keyring Sum256 Pair t))"
  by (auto simp add: Keyring_cases list_all_iff length_key_of split: list.splits)

subsection \<open>Peering.Join\<close>

text \<open>What \<open>Join\<close> returns whenever \<open>P2PBind\<close> is set: the log and the call of the joiner.\<close>

lemma Join_returns:
  assumes "P2PBind config = Some bind"
  shows "Join env ClusterJoin t ctx config c (snap :: 'sn) =
    Returned
     ((case (p2ppeering env config :: (error + ('dl, 'sn) Source) outcome) of
         Returned (Inl err) \<Rightarrow> [Println_error ''WARNING: P2P discovery disabled'' err]
       | _ \<Rightarrow> [])
      @ (if DNSEnabled t then [Println ''dns peering enabled''] else [])
      @ (if AWSEnabled t then [Println ''aws autoscale groups peering enabled''] else [])
      @ (if GCloudEnabled t then [Println ''gcloud target pool peering enabled''] else []),
      ClusterJoin ctx config c
       [NewStaticTCP (BootstrapStatic t),
        (case p2ppeering env config of Returned (Inr s) \<Rightarrow> s | _ \<Rightarrow> NewStaticTCP []),
        (if AWSEnabled t then AWSAutoscaling (Port bind) (AutoscalingGroups (AWSBootstrap config))
         else NewStaticTCP []),
        (if GCloudEnabled t then GCloudTargetPool (Port bind) (MinimumNodes config)
         else NewStaticTCP []),
        File snap,
        (if DNSEnabled t then NewDNS (Port bind) (DNSBootstrap config @ [ServerName config])
         else NewStaticTCP [])])"
proof -
  obtain r where r: "(p2ppeering env config :: (error + ('dl, 'sn) Source) outcome) = Returned r"
    using assms by (simp add: p2ppeering_def Let_def)
  show ?thesis
    using assms by (cases r) (simp_all add: Join_def r and_then_def P2PBind_Port_def)
qed

text \<open>With a nil \<open>P2PBind\<close> the call panics in \<open>p2ppeering\<close>, before any source is built.\<close>

lemma Join_nil_P2PBind_panics:
  "P2PBind config = None \<Longrightarrow> Join env ClusterJoin t ctx config c snap = Panic"
  by (simp add: Join_def p2ppeering_def and_then_def)

lemma bind_example: "P2PBind example_config = Some \<lparr>IP = [127, 0, 0, 1], Port = 2000, Zone = []\<rparr>"
  by (simp add: example_config_def)

text \<open>
  C1, as the specification states it, fails: with every collaborator working and no
  discovery enabled on the command line, the joiner is given the peer-to-peer discovery
  source before the snapshot.
\<close>

theorem Join_snapshot_after_discovery:
  "\<not> snapshot_before_discovery
       (attempts (Join working_collaborators ClusterJoin_order no_peering () example_config ()
          ''peers.bin''))"
  by code_simp

text \<open>
  C1, amended: whenever \<open>P2PBind\<close> is set, \<open>Join\<close> gives the joiner six sources
  in one fixed order: the static addresses of the command line; the peer-to-peer source,
  or a source of no address when it could not be built; AWS autoscaling, or no address
  when disabled; the GCloud target pool, or no address when disabled; the snapshot; DNS,
  or no address when disabled. The snapshot stands after the static addresses and before
  DNS only. What \<open>Join\<close> returns is what the joiner returns for that list.
\<close>

theorem Join_attempt_order:
  assumes "P2PBind config = Some bind"
  shows "attempts (Join env ClusterJoin_order t ctx config c snap) =
       [NewStaticTCP (BootstrapStatic t),
        (case p2ppeering env config of Returned (Inr s) \<Rightarrow> s | _ \<Rightarrow> NewStaticTCP []),
        (if AWSEnabled t then AWSAutoscaling (Port bind) (AutoscalingGroups (AWSBootstrap config))
         else NewStaticTCP []),
        (if GCloudEnabled t then GCloudTargetPool (Port bind) (MinimumNodes config)
         else NewStaticTCP []),
        File snap,
        (if DNSEnabled t then NewDNS (Port bind) (DNSBootstrap config @ [ServerName config])
         else NewStaticTCP [])]
     \<and> map_outcome snd (Join env ClusterJoin t ctx config c snap) =
         Returned (ClusterJoin ctx config c (attempts (Join env ClusterJoin_order t ctx config c snap)))"
  by (simp add: Join_returns [OF assms] attempts_def ClusterJoin_order_def)

theorem Join_attempt_order_witness:
  "P2PBind example_config = Some \<lparr>IP = [127, 0, 0, 1], Port = 2000, Zone = []\<rparr>
   \<and> attempts (Join working_collaborators ClusterJoin_order
        (no_peering\<lparr>DNSEnabled := True\<rparr>) () example_config () ''peers.bin'') =
       [NewStaticTCP [], P2P ''prod-cluster:2000'' ''prod-cluster:2000'', NewStaticTCP [],
        NewStaticTCP [], File ''peers.bin'', NewDNS 2000 [''prod-cluster'']]"
proof -
  have p: "(p2ppeering working_collaborators example_config :: (error + (string, string) Source) outcome)
      = Returned (Inr (P2P ''prod-cluster:2000'' ''prod-cluster:2000''))"
    by code_simp
  have c: "DNSBootstrap example_config = []" "ServerName example_config = ''prod-cluster''"
    by (simp_all add: example_config_def)
  from Join_attempt_order [OF bind_example, where env = working_collaborators
      and t = "no_peering\<lparr>DNSEnabled := True\<rparr>" and ctx = "()" and c = "()"
      and snap = "''peers.bin''" and ClusterJoin = ClusterJoin_order]
  show ?thesis
    by (simp add: p c bind_example no_peering_def)
qed

text \<open>
  The construction of the peer-to-peer source fails with an error exactly when the signer,
  the TLS configuration or the dialer does, in that order.
\<close>

lemma p2ppeering_fails_iff:
  assumes "P2PBind config = Some bind"
  shows "(p2ppeering env config :: (error + ('dl, 'sn) Source) outcome) = Returned (Inl err) \<longleftrightarrow>
           NewAgentSigner env (Root config) = Inl err
         \<or> (\<exists>ss. NewAgentSigner env (Root config) = Inr ss
              \<and> (TLSGenServer env config = Inl err
                 \<or> (\<exists>tlsconfig. TLSGenServer env config = Inr tlsconfig
                      \<and> DefaultDialer env
                           (JoinHostPort (ServerName config)
                              (envx_String env (Itoa (Port bind))
                                 (EnvAgentClusterP2PDiscoveryPort env)))
                           tlsconfig ss = Inl err)))"
  using assms by (auto simp add: p2ppeering_def Let_def split: sum.splits)

text \<open>
  C5: when the construction of the peer-to-peer source fails with an error (the signer or
  the TLS configuration cannot be built, or the dialer), \<open>Join\<close> logs the warning with
  that error, puts the source of no address (the one that stands for a disabled source)
  in the peer-to-peer position, and returns what the joiner returns for the six sources;
  the error of the construction is not returned.
\<close>

theorem Join_p2p_failure_substitutes_noop:
  assumes "P2PBind config = Some bind"
    and "(p2ppeering env config :: (error + ('dl, 'sn) Source) outcome) = Returned (Inl err)"
  shows "Join env ClusterJoin t ctx config c (snap :: 'sn) =
        Returned
         (Println_error ''WARNING: P2P discovery disabled'' err
            # (if DNSEnabled t then [Println ''dns peering enabled''] else [])
            @ (if AWSEnabled t then [Println ''aws autoscale groups peering enabled''] else [])
            @ (if GCloudEnabled t then [Println ''gcloud target pool peering enabled''] else []),
          ClusterJoin ctx config c
           [NewStaticTCP (BootstrapStatic t),
            NewStaticTCP [],
            (if AWSEnabled t then AWSAutoscaling (Port bind) (AutoscalingGroups (AWSBootstrap config))
             else NewStaticTCP []),
            (if GCloudEnabled t then GCloudTargetPool (Port bind) (MinimumNodes config)
             else NewStaticTCP []),
            File snap,
            (if DNSEnabled t then NewDNS (Port bind) (DNSBootstrap config @ [ServerName config])
             else NewStaticTCP [])])"
  using assms(2) by (simp add: Join_returns [OF assms(1)])

theorem Join_p2p_failure_substitutes_noop_witness:
  "P2PBind example_config = Some \<lparr>IP = [127, 0, 0, 1], Port = 2000, Zone = []\<rparr>
   \<and> (p2ppeering missing_credentials example_config :: (error + (string, string) Source) outcome)
      = Returned (Inl (Error ''no signing key''))
   \<and> Join missing_credentials ClusterJoin_order no_peering () example_config () ''peers.bin'' =
       Returned ([Println_error ''WARNING: P2P discovery disabled'' (Error ''no signing key'')],
         [NewStaticTCP [], NewStaticTCP [], NewStaticTCP [], NewStaticTCP [], File ''peers.bin'',
          NewStaticTCP []])"
proof -
  have p: "(p2ppeering missing_credentials example_config :: (error + (string, string) Source) outcome)
      = Returned (Inl (Error ''no signing key''))"
    by code_simp
  from Join_p2p_failure_substitutes_noop [OF bind_example p, of ClusterJoin_order no_peering "()" "()" "''peers.bin''"]
  show ?thesis
    by (simp add: p bind_example no_peering_def ClusterJoin_order_def)
qed

subsection \<open>The file system calls\<close>

lemma perform_result:
  "perform op effect w = (e, w') \<Longrightarrow>
     calls w' = calls w @ [(op, e)] \<and> faults w' = faults w
     \<and> (case e of Some err \<Rightarrow> files w' = files w
                  | None \<Rightarrow> faults w (length (calls w)) = None \<and> effect (files w) = Inr (files w'))"
  by (auto simp add: perform_def split: option.splits sum.splits)

lemma os_RemoveAll_result:
  "os_RemoveAll p w = (e, w') \<Longrightarrow>
     calls w' = calls w @ [(OpRemoveAll p, e)] \<and> faults w' = faults w
     \<and> (case e of Some err \<Rightarrow> files w' = files w
                  | None \<Rightarrow> files w' = (\<lambda>q. if beneath p q then None else files w q))"
  unfolding os_RemoveAll_def by (drule perform_result) (auto split: option.splits)

lemma os_MkdirAll_result:
  "os_MkdirAll p perm w = (e, w') \<Longrightarrow>
     calls w' = calls w @ [(OpMkdirAll p perm, e)] \<and> faults w' = faults w
     \<and> (case e of Some err \<Rightarrow> files w' = files w
                  | None \<Rightarrow> mkdir_all p (files w) = Inr (files w'))"
  unfolding os_MkdirAll_def by (drule perform_result) (auto split: option.splits)

lemma RaftStoreFilepath_result:
  "RaftStoreFilepath p w = (r, w') \<Longrightarrow>
     faults w' = faults w
     \<and> (case r of
          Inl err \<Rightarrow> calls w' = calls w @ [(OpRaftStoreFilepath p, Some err)] \<and> files w' = files w
        | Inr s \<Rightarrow> calls w' = calls w @ [(OpRaftStoreFilepath p, None)] \<and> s = BoltStore p
                   \<and> open_store p (files w) = Inr (files w'))"
  unfolding RaftStoreFilepath_def
  by (cases "perform (OpRaftStoreFilepath p) (open_store p) w")
     (auto dest!: perform_result split: option.splits)

lemma NewFileSnapshotStore_result:
  "NewFileSnapshotStore base n w = (r, w') \<Longrightarrow>
     faults w' = faults w
     \<and> (case r of
          Inl err \<Rightarrow> calls w' = calls w @ [(OpNewFileSnapshotStore base n, Some err)]
                     \<and> files w' = files w
        | Inr ss \<Rightarrow> calls w' = calls w @ [(OpNewFileSnapshotStore base n, None)]
                   \<and> ss = \<lparr>snapshot_dir = filepath_Join base ''snapshots'', retain = n\<rparr>
                   \<and> 1 \<le> n
                   \<and> mkdir_all (filepath_Join base ''snapshots'') (files w) = Inr (files w'))"
  unfolding NewFileSnapshotStore_def
  by (cases "perform (OpNewFileSnapshotStore base n)
             (\<lambda>fs. if n < 1 then Inl (Error ''must retain at least one snapshot'')
                   else mkdir_all (filepath_Join base ''snapshots'') fs) w")
     (auto dest!: perform_result split: option.splits if_splits)

lemma member_lineage: "q \<in> set (lineage p) \<longleftrightarrow> fst q = fst p \<and> prefix (snd q) (snd p)"
  by (cases q) (auto simp add: lineage_def)

lemma beneath_Join: "beneath p (filepath_Join p name)"
  by (simp add: beneath_def filepath_Join_def)

lemma Join_neq: "filepath_Join p name \<noteq> p"
  by (cases p) (simp add: filepath_Join_def)

lemma Join_inject: "filepath_Join p a = filepath_Join p b \<longleftrightarrow> a = b"
  by (simp add: filepath_Join_def prod_eq_iff)

lemma parent_Join: "parent (filepath_Join p name) = p"
  by (simp add: parent_def filepath_Join_def)

lemma above_and_beneath:
  "fst q = fst p \<and> prefix (snd q) (snd p) \<and> beneath p q \<longleftrightarrow> q = p"
  by (auto simp add: beneath_def prod_eq_iff prefix_order.eq_iff)

lemma above_Join:
  "fst q = fst (filepath_Join p name) \<and> prefix (snd q) (snd (filepath_Join p name)) \<longleftrightarrow>
     (fst q = fst p \<and> prefix (snd q) (snd p)) \<or> q = filepath_Join p name"
  by (cases q) (auto simp add: filepath_Join_def)

subsection \<open>The passive reset\<close>

text \<open>
  The calls of one reset, its result and the number of calls, by the first call that failed.
\<close>

lemma passive_reset_calls:
  "map fst (calls_since w (snd (passive_reset dir w))) =
     take (length (calls_since w (snd (passive_reset dir w)))) (reset_steps dir)
   \<and> fst (passive_reset dir w) =
       (case first_failure 0 (calls_since w (snd (passive_reset dir w))) of
          Some (i, err) \<Rightarrow> Inl (WithStack err (if i < 2 then 451 else if i = 2 then 455 else 459))
        | None \<Rightarrow> Inr (BoltStore (filepath_Join dir ''state.bin''),
                       \<lparr>snapshot_dir = filepath_Join dir ''snapshots'', retain = 5\<rparr>))
   \<and> length (calls_since w (snd (passive_reset dir w))) =
       (case first_failure 0 (calls_since w (snd (passive_reset dir w))) of
          Some (i, err) \<Rightarrow> max 2 (Suc i)
        | None \<Rightarrow> 4)"
proof -
  obtain e1 w1 where r1: "os_RemoveAll dir w = (e1, w1)"
    by (cases "os_RemoveAll dir w")
  obtain e2 w2 where r2: "os_MkdirAll dir 448 w1 = (e2, w2)"
    by (cases "os_MkdirAll dir 448 w1")
  obtain r3 w3 where r3: "RaftStoreFilepath (filepath_Join dir ''state.bin'') w2 = (r3, w3)"
    by (cases "RaftStoreFilepath (filepath_Join dir ''state.bin'') w2")
  obtain r4 w4 where r4: "NewFileSnapshotStore dir 5 w3 = (r4, w4)"
    by (cases "NewFileSnapshotStore dir 5 w3")
  have c1: "calls w1 = calls w @ [(OpRemoveAll dir, e1)]"
    using os_RemoveAll_result [OF r1] by simp
  have c2: "calls w2 = calls w @ [(OpRemoveAll dir, e1), (OpMkdirAll dir 448, e2)]"
    using os_MkdirAll_result [OF r2] c1 by simp
  note k3 = RaftStoreFilepath_result [OF r3]
  note k4 = NewFileSnapshotStore_result [OF r4]
  show ?thesis
  proof (cases "Compact [e1, e2]")
    case (Some err)
    then have res: "passive_reset dir w = (Inl (WithStack err 451), w2)"
      by (simp add: passive_reset_def r1 r2)
    from Some show ?thesis
      by (cases e1; cases e2) (simp_all add: res calls_since_def c2 reset_steps_def)
  next
    case None
    then have ok: "e1 = None" "e2 = None"
      by (cases e1; cases e2; simp)+
    show ?thesis
    proof (cases r3)
      case (Inl err)
      then have res: "passive_reset dir w = (Inl (WithStack err 455), w3)"
        by (simp add: passive_reset_def r1 r2 r3 ok)
      from k3 Inl show ?thesis
        by (simp add: res calls_since_def c2 ok reset_steps_def)
    next
      case s: (Inr s)
      show ?thesis
      proof (cases r4)
        case (Inl err)
        then have res: "passive_reset dir w = (Inl (WithStack err 459), w4)"
          by (simp add: passive_reset_def r1 r2 r3 r4 ok s)
        from k3 k4 s Inl show ?thesis
          by (simp add: res calls_since_def c2 ok reset_steps_def)
      next
        case (Inr ss)
        then have res: "passive_reset dir w = (Inr (s, ss), w4)"
          by (simp add: passive_reset_def r1 r2 r3 r4 ok s)
        from k3 k4 s Inr show ?thesis
          by (simp add: res calls_since_def c2 ok reset_steps_def)
      qed
    qed
  qed
qed

lemma passive_reset_success:
  assumes "fst (passive_reset dir w) = Inr r"
  shows "r = (BoltStore (filepath_Join dir ''state.bin''),
              \<lparr>snapshot_dir = filepath_Join dir ''snapshots'', retain = 5\<rparr>)"
  using passive_reset_calls [of w dir] assms by (auto split: option.splits)

text \<open>
  The files after a reset that succeeded: the storage directory is fresh, a missing
  directory above it was created, every other file is as it was.
\<close>

lemma passive_reset_files:
  assumes "fst (passive_reset dir w) = Inr r"
  shows "files (snd (passive_reset dir w)) =
           (\<lambda>q. if beneath dir q then fresh_storage dir q
                else if q \<in> set (lineage dir) \<and> files w q = None then Some Dir
                else files w q)"
proof -
  obtain e1 w1 where r1: "os_RemoveAll dir w = (e1, w1)"
    by (cases "os_RemoveAll dir w")
  obtain e2 w2 where r2: "os_MkdirAll dir 448 w1 = (e2, w2)"
    by (cases "os_MkdirAll dir 448 w1")
  obtain r3 w3 where r3: "RaftStoreFilepath (filepath_Join dir ''state.bin'') w2 = (r3, w3)"
    by (cases "RaftStoreFilepath (filepath_Join dir ''state.bin'') w2")
  obtain r4 w4 where r4: "NewFileSnapshotStore dir 5 w3 = (r4, w4)"
    by (cases "NewFileSnapshotStore dir 5 w3")
  from assms have ok: "e1 = None" "e2 = None"
    by (cases e1; cases e2; simp add: passive_reset_def r1 r2 split: sum.splits prod.splits)+
  from assms obtain s where s: "r3 = Inr s"
    by (cases r3) (simp_all add: passive_reset_def r1 r2 r3 ok)
  from assms obtain ss where ss: "r4 = Inr ss"
    by (cases r4) (simp_all add: passive_reset_def r1 r2 r3 r4 ok s)
  have res: "snd (passive_reset dir w) = w4"
    by (simp add: passive_reset_def r1 r2 r3 r4 ok s ss)
  have f1: "files w1 = (\<lambda>q. if beneath dir q then None else files w q)"
    using os_RemoveAll_result [OF r1] ok by simp
  have m2: "mkdir_all dir (files w1) = Inr (files w2)"
    using os_MkdirAll_result [OF r2] ok by simp
  then have f2: "files w2 = (\<lambda>q. if q \<in> set (lineage dir) \<and> files w1 q = None then Some Dir
                                   else files w1 q)"
    by (simp add: mkdir_all_def split: if_splits)
  have o3: "open_store (filepath_Join dir ''state.bin'') (files w2) = Inr (files w3)"
    using RaftStoreFilepath_result [OF r3] s by simp
  have none3: "files w2 (filepath_Join dir ''state.bin'') = None"
    using above_and_beneath [of "filepath_Join dir ''state.bin''" dir]
    by (simp add: f2 f1 member_lineage beneath_Join Join_neq)
  from o3 none3 have f3: "files w3 = (files w2)(filepath_Join dir ''state.bin'' \<mapsto> Regular [])"
    by (simp add: open_store_def split: if_splits)
  have m4: "mkdir_all (filepath_Join dir ''snapshots'') (files w3) = Inr (files w4)"
    using NewFileSnapshotStore_result [OF r4] ss by simp
  then have f4: "files w4 = (\<lambda>q. if q \<in> set (lineage (filepath_Join dir ''snapshots''))
                                      \<and> files w3 q = None then Some Dir else files w3 q)"
    by (simp add: mkdir_all_def split: if_splits)
  show ?thesis
  proof (rule ext)
    fix q
    show "files (snd (passive_reset dir w)) q =
           (if beneath dir q then fresh_storage dir q
            else if q \<in> set (lineage dir) \<and> files w q = None then Some Dir
            else files w q)"
      using above_and_beneath [of q dir] above_Join [of q dir "''snapshots''"]
      by (auto simp add: res f4 f3 f2 f1 member_lineage fresh_storage_def beneath_Join Join_neq
            Join_inject)
  qed
qed

lemma beneath_snapshots:
  assumes "beneath (filepath_Join dir ''snapshots'') q" and "q \<noteq> filepath_Join dir ''snapshots''"
  shows "beneath dir q \<and> fresh_storage dir q = None"
proof -
  from assms(1) have b: "fst q = fst dir" "prefix (snd dir @ [''snapshots'']) (snd q)"
    by (simp_all add: beneath_def filepath_Join_def)
  then have "beneath dir q"
    by (auto simp add: beneath_def dest: append_prefixD)
  moreover from b have "q \<noteq> dir"
    by auto
  moreover from b have "q \<noteq> filepath_Join dir ''state.bin''"
    by (auto simp add: filepath_Join_def)
  ultimately show ?thesis
    using assms(2) by (simp add: fresh_storage_def)
qed

lemma reset_stale_disk:
  "fst (passive_reset (raft_dir example_config) stale_disk) =
     Inr (BoltStore (filepath_Join (raft_dir example_config) ''state.bin''),
          \<lparr>snapshot_dir = filepath_Join (raft_dir example_config) ''snapshots'', retain = 5\<rparr>)"
  by code_simp





text \<open>
  Writing snapshots keeps the index: at most as many files as the store retains, and the
  snapshot written last is among them.
\<close>

lemma inj_Join: "inj (filepath_Join p)"
  by (rule injI) (simp add: Join_inject)

lemma write_snapshot_indexed:
  assumes "indexed ss st"
  shows "indexed ss (write_snapshot ss snapshot st)"
proof -
  obtain name content where sn: "snapshot = (name, content)"
    by (cases snapshot)
  obtain names fs where st: "st = (names, fs)"
    by (cases st)
  define sd where "sd = snapshot_dir ss"
  define nf where "nf = name # removeAll name names"
  define k where "k = nat (retain ss)"
  from assms have d: "distinct names"
    and files: "snapshot_files ss fs = filepath_Join sd ` set names"
    by (simp_all add: indexed_def st sd_def)
  have dn: "distinct nf"
    using d by (simp add: nf_def distinct_removeAll)
  have split: "set nf = set (take k nf) \<union> set (drop k nf)"
    by (metis append_take_drop_id set_append)
  have disj: "set (take k nf) \<inter> set (drop k nf) = {}"
    using dn by (metis append_take_drop_id distinct_append)
  have res: "write_snapshot ss snapshot st =
      (take k nf, (\<lambda>q. if q \<in> filepath_Join sd ` set (drop k nf) then None
                       else (fs(filepath_Join sd name \<mapsto> Regular content)) q))"
    unfolding sd_def nf_def k_def by (simp add: write_snapshot_def sn st Let_def)
  have "(beneath sd q \<and> q \<noteq> sd \<and>
          (if q \<in> filepath_Join sd ` set (drop k nf) then None
           else (fs(filepath_Join sd name \<mapsto> Regular content)) q) \<noteq> None)
        \<longleftrightarrow> q \<in> filepath_Join sd ` set (take k nf)" for q
  proof -
    have in_fs: "beneath sd q \<and> q \<noteq> sd \<and> fs q \<noteq> None \<longleftrightarrow> q \<in> filepath_Join sd ` set names"
      using files by (auto simp add: snapshot_files_def sd_def)
    have nfset: "set nf = insert name (set names)"
      by (auto simp add: nf_def)
    have child: "beneath sd q \<and> q \<noteq> sd" if "q \<in> filepath_Join sd ` A" for A
      using that by (auto simp add: beneath_Join Join_neq)
    show ?thesis
    proof (cases "q \<in> filepath_Join sd ` set (drop k nf)")
      case True
      then obtain n where n: "q = filepath_Join sd n" "n \<in> set (drop k nf)"
        by auto
      with disj have "n \<notin> set (take k nf)"
        by auto
      with n have "q \<notin> filepath_Join sd ` set (take k nf)"
        by (auto simp add: Join_inject)
      with True show ?thesis
        by simp
    next
      case False
      have "q \<in> filepath_Join sd ` set (take k nf) \<longleftrightarrow> q \<in> filepath_Join sd ` set nf"
        using False split by auto
      also have "\<dots> \<longleftrightarrow> q = filepath_Join sd name \<or> q \<in> filepath_Join sd ` set names"
        by (auto simp add: nfset)
      also have "\<dots> \<longleftrightarrow> beneath sd q \<and> q \<noteq> sd
          \<and> (fs(filepath_Join sd name \<mapsto> Regular content)) q \<noteq> None"
        using in_fs by (auto simp add: beneath_Join Join_neq)
      finally show ?thesis
        using False by simp
    qed
  qed
  then have "snapshot_files ss (snd (write_snapshot ss snapshot st)) =
      filepath_Join sd ` set (fst (write_snapshot ss snapshot st))"
    by (auto simp add: snapshot_files_def res sd_def [symmetric])
  moreover have "distinct (take k nf)" "length (take k nf) \<le> k"
    using dn by simp_all
  ultimately show ?thesis
    by (simp add: indexed_def res sd_def k_def)
qed

lemma write_snapshots_indexed:
  "indexed ss st \<Longrightarrow> indexed ss (write_snapshots ss snaps st)"
  by (induction snaps arbitrary: st) (simp_all add: write_snapshot_indexed)

lemma indexed_card:
  assumes "indexed ss st"
  shows "finite (snapshot_files ss (snd st)) \<and> card (snapshot_files ss (snd st)) \<le> nat (retain ss)"
proof -
  from assms have eq: "snapshot_files ss (snd st) = filepath_Join (snapshot_dir ss) ` set (fst st)"
    and len: "length (fst st) \<le> nat (retain ss)"
    by (simp_all add: indexed_def)
  have "card (filepath_Join (snapshot_dir ss) ` set (fst st)) \<le> card (set (fst st))"
    by (rule card_image_le) simp
  also have "\<dots> \<le> length (fst st)"
    by (rule card_length)
  finally show ?thesis
    using len by (simp add: eq)
qed

lemma write_snapshots_last:
  assumes "0 < retain ss" and "snaps \<noteq> []"
  shows "snd (write_snapshots ss snaps st) (filepath_Join (snapshot_dir ss) (fst (last snaps))) =
           Some (Regular (snd (last snaps)))"
  using assms(2)
proof (induction snaps arbitrary: st)
  case Nil
  then show ?case by simp
next
  case (Cons a snaps)
  show ?case
  proof (cases "snaps = []")
    case True
    obtain name content where a: "a = (name, content)" by (cases a)
    obtain names fs where st: "st = (names, fs)" by (cases st)
    have "name \<notin> set (drop (nat (retain ss)) (name # removeAll name names))"
      using assms(1) by (cases "nat (retain ss)") (auto dest: in_set_dropD)
    then show ?thesis
      by (auto simp add: True a st write_snapshot_def Let_def Join_inject)
  next
    case False
    with Cons.IH show ?thesis by simp
  qed
qed

lemma six_snapshots_written:
  "map (snd (write_snapshots
               \<lparr>snapshot_dir = filepath_Join (raft_dir example_config) ''snapshots'', retain = 5\<rparr>
               six_snapshots
               ([], files (snd (passive_reset (raft_dir example_config) stale_disk)))))
     (map (filepath_Join (filepath_Join (raft_dir example_config) ''snapshots''))
        [''1-10'', ''1-20'', ''2-30'', ''2-40'', ''3-50'', ''3-60'']) =
   [None, Some (Regular [2]), Some (Regular [3]), Some (Regular [4]), Some (Regular [5]),
    Some (Regular [6])]"
  by code_simp

text \<open>
  C7: the snapshot store a successful reset returns is built with a retained-snapshot
  count of 5, on the directory \<open>snapshots\<close> of the storage directory; that directory
  exists and holds nothing when the reset returns. Whatever snapshots are written to the
  store from then on, after each of them its directory holds at most 5 snapshot files,
  the one written last among them.
\<close>

theorem passive_reset_retains_five:
  assumes "fst (passive_reset dir w) = Inr (s, ss)"
  shows "retain ss = 5
       \<and> snapshot_dir ss = filepath_Join dir ''snapshots''
       \<and> files (snd (passive_reset dir w)) (snapshot_dir ss) = Some Dir
       \<and> (\<forall>q. beneath (snapshot_dir ss) q \<and> q \<noteq> snapshot_dir ss
              \<longrightarrow> files (snd (passive_reset dir w)) q = None)
       \<and> finite (snapshot_files ss
            (snd (write_snapshots ss snaps ([], files (snd (passive_reset dir w))))))
       \<and> card (snapshot_files ss
            (snd (write_snapshots ss snaps ([], files (snd (passive_reset dir w)))))) \<le> 5
       \<and> (snaps \<noteq> [] \<longrightarrow>
            snd (write_snapshots ss snaps ([], files (snd (passive_reset dir w))))
              (filepath_Join (snapshot_dir ss) (fst (last snaps))) =
            Some (Regular (snd (last snaps))))"
proof -
  have ss: "ss = \<lparr>snapshot_dir = filepath_Join dir ''snapshots'', retain = 5\<rparr>"
    using passive_reset_success [OF assms] by simp
  have empty: "files (snd (passive_reset dir w)) q = None"
    if "beneath (snapshot_dir ss) q" "q \<noteq> snapshot_dir ss" for q
    using beneath_snapshots [of dir q] that by (simp add: ss passive_reset_files [OF assms])
  then have "snapshot_files ss (files (snd (passive_reset dir w))) = {}"
    unfolding snapshot_files_def by fastforce
  then have "indexed ss ([], files (snd (passive_reset dir w)))"
    by (simp add: indexed_def)
  then have "indexed ss (write_snapshots ss snaps ([], files (snd (passive_reset dir w))))"
    by (rule write_snapshots_indexed)
  from indexed_card [OF this]
  have bound: "finite (snapshot_files ss
            (snd (write_snapshots ss snaps ([], files (snd (passive_reset dir w))))))"
    "card (snapshot_files ss
            (snd (write_snapshots ss snaps ([], files (snd (passive_reset dir w)))))) \<le> 5"
    by (simp_all add: ss)
  have dir: "files (snd (passive_reset dir w)) (snapshot_dir ss) = Some Dir"
    by (simp add: ss passive_reset_files [OF assms] beneath_Join fresh_storage_def Join_neq
          Join_inject)
  have "0 < retain ss"
    by (simp add: ss)
  from write_snapshots_last [OF this] bound dir empty show ?thesis
    by (simp add: ss)
qed

theorem passive_reset_retains_five_witness:
  "fst (passive_reset (raft_dir example_config) stale_disk) =
     Inr (BoltStore (filepath_Join (raft_dir example_config) ''state.bin''),
          \<lparr>snapshot_dir = filepath_Join (raft_dir example_config) ''snapshots'', retain = 5\<rparr>)
   \<and> card (snapshot_files
        \<lparr>snapshot_dir = filepath_Join (raft_dir example_config) ''snapshots'', retain = 5\<rparr>
        (snd (write_snapshots
               \<lparr>snapshot_dir = filepath_Join (raft_dir example_config) ''snapshots'', retain = 5\<rparr>
               six_snapshots
               ([], files (snd (passive_reset (raft_dir example_config) stale_disk)))))) \<le> 5
   \<and> map (snd (write_snapshots
               \<lparr>snapshot_dir = filepath_Join (raft_dir example_config) ''snapshots'', retain = 5\<rparr>
               six_snapshots
               ([], files (snd (passive_reset (raft_dir example_config) stale_disk)))))
     (map (filepath_Join (filepath_Join (raft_dir example_config) ''snapshots''))
        [''1-10'', ''1-20'', ''2-30'', ''2-40'', ''3-50'', ''3-60'']) =
   [None, Some (Regular [2]), Some (Regular [3]), Some (Regular [4]), Some (Regular [5]),
    Some (Regular [6])]"
  using passive_reset_retains_five [OF reset_stale_disk, of six_snapshots]
    reset_stale_disk six_snapshots_written
  by simp

text \<open>
  What a reset that succeeded says about the world it started from, and the other way
  round: a reset succeeds when no call is refused and no file stands above the storage
  directory where a directory must be.
\<close>

lemma perform_ok:
  "faults w (length (calls w)) = None \<Longrightarrow> effect (files w) = Inr fs \<Longrightarrow>
     perform op effect w = (None, w\<lparr>files := fs, calls := calls w @ [(op, None)]\<rparr>)"
  by (simp add: perform_def)

lemma passive_reset_conditions:
  assumes "fst (passive_reset dir w) = Inr r"
  shows "faults (snd (passive_reset dir w)) = faults w
       \<and> length (calls (snd (passive_reset dir w))) = length (calls w) + 4
       \<and> \<not> list_ex (\<lambda>q. is_regular (files w q) \<and> q \<noteq> dir) (lineage dir)"
proof -
  obtain e1 w1 where r1: "os_RemoveAll dir w = (e1, w1)"
    by (cases "os_RemoveAll dir w")
  obtain e2 w2 where r2: "os_MkdirAll dir 448 w1 = (e2, w2)"
    by (cases "os_MkdirAll dir 448 w1")
  obtain r3 w3 where r3: "RaftStoreFilepath (filepath_Join dir ''state.bin'') w2 = (r3, w3)"
    by (cases "RaftStoreFilepath (filepath_Join dir ''state.bin'') w2")
  obtain r4 w4 where r4: "NewFileSnapshotStore dir 5 w3 = (r4, w4)"
    by (cases "NewFileSnapshotStore dir 5 w3")
  from assms have ok: "e1 = None" "e2 = None"
    by (cases e1; cases e2; simp add: passive_reset_def r1 r2 split: sum.splits prod.splits)+
  from assms obtain s where s: "r3 = Inr s"
    by (cases r3) (simp_all add: passive_reset_def r1 r2 r3 ok)
  from assms obtain ss where ss: "r4 = Inr ss"
    by (cases r4) (simp_all add: passive_reset_def r1 r2 r3 r4 ok s)
  have res: "snd (passive_reset dir w) = w4"
    by (simp add: passive_reset_def r1 r2 r3 r4 ok s ss)
  note k1 = os_RemoveAll_result [OF r1] and k2 = os_MkdirAll_result [OF r2]
    and k3 = RaftStoreFilepath_result [OF r3] and k4 = NewFileSnapshotStore_result [OF r4]
  have fl: "faults w4 = faults w"
    using k1 k2 k3 k4 by simp
  have ln: "length (calls w4) = length (calls w) + 4"
    using k1 k2 k3 k4 ok s ss by simp
  have f1: "files w1 = (\<lambda>q. if beneath dir q then None else files w q)"
    using k1 ok by simp
  have "mkdir_all dir (files w1) = Inr (files w2)"
    using k2 ok by simp
  then have "\<not> list_ex (\<lambda>q. is_regular (files w1 q)) (lineage dir)"
    by (simp add: mkdir_all_def split: if_splits)
  then have noreg: "\<not> is_regular (files w1 q)" if "q \<in> set (lineage dir)" for q
    using that by (auto simp add: list_ex_iff)
  have "\<not> (is_regular (files w q) \<and> q \<noteq> dir)" if q: "q \<in> set (lineage dir)" for q
  proof (cases "q = dir")
    case True
    then show ?thesis by simp
  next
    case False
    with q have "\<not> beneath dir q"
      using above_and_beneath [of q dir] by (simp add: member_lineage)
    with noreg [OF q] show ?thesis
      by (simp add: f1)
  qed
  then have "\<not> list_ex (\<lambda>q. is_regular (files w q) \<and> q \<noteq> dir) (lineage dir)"
    by (auto simp add: list_ex_iff)
  with fl ln show ?thesis
    by (simp add: res)
qed

lemma passive_reset_succeeds:
  assumes nf: "no_fault_ahead 4 w"
    and nr: "\<not> list_ex (\<lambda>q. is_regular (files w q) \<and> q \<noteq> dir) (lineage dir)"
  shows "fst (passive_reset dir w) =
           Inr (BoltStore (filepath_Join dir ''state.bin''),
                \<lparr>snapshot_dir = filepath_Join dir ''snapshots'', retain = 5\<rparr>)"
proof -
  from nf have n: "faults w (length (calls w) + i) = None" if "i < 4" for i
    using that by (simp add: no_fault_ahead_def list_all_iff)
  have n0: "faults w (length (calls w)) = None"
    and n1: "faults w (Suc (length (calls w))) = None"
    and n2: "faults w (Suc (Suc (length (calls w)))) = None"
    and n3: "faults w (Suc (Suc (Suc (length (calls w))))) = None"
    using n [of 0] n [of 1] n [of 2] n [of 3] by (simp_all add: numeral_3_eq_3)
  define fs1 where "fs1 = (\<lambda>q. if beneath dir q then None else files w q)"
  define w1 where "w1 = w\<lparr>files := fs1, calls := calls w @ [(OpRemoveAll dir, None)]\<rparr>"
  have r1: "os_RemoveAll dir w = (None, w1)"
    unfolding os_RemoveAll_def w1_def fs1_def by (rule perform_ok [OF n0]) simp
  have noreg1: "\<not> list_ex (\<lambda>q. is_regular (fs1 q)) (lineage dir)"
    using nr above_and_beneath [of _ dir]
    by (auto simp add: list_ex_iff fs1_def member_lineage is_regular_def)
  define fs2 where "fs2 = (\<lambda>q. if q \<in> set (lineage dir) \<and> fs1 q = None then Some Dir else fs1 q)"
  define w2 where "w2 = w1\<lparr>files := fs2, calls := calls w1 @ [(OpMkdirAll dir 448, None)]\<rparr>"
  have r2: "os_MkdirAll dir 448 w1 = (None, w2)"
    unfolding os_MkdirAll_def w2_def
    by (rule perform_ok) (simp_all add: w1_def n1 mkdir_all_def noreg1 fs2_def)
  have dir2: "fs2 dir = Some Dir"
    by (simp add: fs2_def fs1_def member_lineage beneath_def)
  have st2: "fs2 (filepath_Join dir ''state.bin'') = None"
    using above_and_beneath [of "filepath_Join dir ''state.bin''" dir]
    by (simp add: fs2_def fs1_def member_lineage beneath_Join Join_neq)
  define fs3 where "fs3 = fs2(filepath_Join dir ''state.bin'' \<mapsto> Regular [])"
  define w3 where "w3 = w2\<lparr>files := fs3,
    calls := calls w2 @ [(OpRaftStoreFilepath (filepath_Join dir ''state.bin''), None)]\<rparr>"
  have "perform (OpRaftStoreFilepath (filepath_Join dir ''state.bin''))
          (open_store (filepath_Join dir ''state.bin'')) w2 = (None, w3)"
    unfolding w3_def
    by (rule perform_ok) (simp_all add: w2_def w1_def n2 open_store_def parent_Join dir2 st2 fs3_def)
  then have r3: "RaftStoreFilepath (filepath_Join dir ''state.bin'') w2 =
      (Inr (BoltStore (filepath_Join dir ''state.bin'')), w3)"
    by (simp add: RaftStoreFilepath_def)
  have "\<not> is_regular (fs3 q)" if "q \<in> set (lineage (filepath_Join dir ''snapshots''))" for q
  proof (cases "q = filepath_Join dir ''snapshots''")
    case True
    then show ?thesis
      using above_and_beneath [of "filepath_Join dir ''snapshots''" dir]
      by (simp add: fs3_def fs2_def fs1_def member_lineage beneath_Join Join_neq Join_inject
            is_regular_def)
  next
    case False
    with that have q: "q \<in> set (lineage dir)"
      using above_Join [of q dir "''snapshots''"] by (simp add: member_lineage)
    then have "q \<noteq> filepath_Join dir ''state.bin''"
      using above_and_beneath [of "filepath_Join dir ''state.bin''" dir]
      by (auto simp add: member_lineage beneath_Join Join_neq)
    moreover from q noreg1 have "\<not> is_regular (fs1 q)"
      by (auto simp add: list_ex_iff)
    ultimately show ?thesis
      using q by (auto simp add: fs3_def fs2_def is_regular_def)
  qed
  then have noreg3: "\<not> list_ex (\<lambda>q. is_regular (fs3 q)) (lineage (filepath_Join dir ''snapshots''))"
    by (auto simp add: list_ex_iff)
  define w4 where "w4 = w3\<lparr>files := (\<lambda>q. if q \<in> set (lineage (filepath_Join dir ''snapshots''))
      \<and> fs3 q = None then Some Dir else fs3 q),
    calls := calls w3 @ [(OpNewFileSnapshotStore dir 5, None)]\<rparr>"
  have "perform (OpNewFileSnapshotStore dir 5)
          (\<lambda>fs. if (5::int) < 1 then Inl (Error ''must retain at least one snapshot'')
                else mkdir_all (filepath_Join dir ''snapshots'') fs) w3 = (None, w4)"
    unfolding w4_def
    by (rule perform_ok) (simp_all add: w3_def w2_def w1_def n3 mkdir_all_def noreg3)
  then have r4: "NewFileSnapshotStore dir 5 w3 =
      (Inr \<lparr>snapshot_dir = filepath_Join dir ''snapshots'', retain = 5\<rparr>, w4)"
    by (simp add: NewFileSnapshotStore_def)
  show ?thesis
    by (simp add: passive_reset_def r1 r2 r3 r4)
qed

lemma no_fault_stale_disk:
  "no_fault_ahead 4 (snd (passive_reset (raft_dir example_config) stale_disk))"
  by code_simp

text \<open>
  C9: when a reset succeeds and the system refuses none of the four calls of a second
  reset, run on the world the first one left, the second succeeds too, returns the same
  stores and leaves the files as the first left them; below the storage directory the
  files are those of a fresh storage: the directory, an empty log store and an empty
  snapshot directory.
\<close>

theorem passive_reset_idempotent:
  assumes "fst (passive_reset dir w) = Inr r"
    and "no_fault_ahead 4 (snd (passive_reset dir w))"
  shows "fst (passive_reset dir (snd (passive_reset dir w))) = Inr r
       \<and> files (snd (passive_reset dir (snd (passive_reset dir w)))) =
           files (snd (passive_reset dir w))
       \<and> (\<forall>q. beneath dir q \<longrightarrow> files (snd (passive_reset dir w)) q = fresh_storage dir q)"
proof -
  define w1 where "w1 = snd (passive_reset dir w)"
  note f1 = passive_reset_files [OF assms(1), folded w1_def]
  from passive_reset_conditions [OF assms(1)]
  have noreg: "\<not> list_ex (\<lambda>q. is_regular (files w q) \<and> q \<noteq> dir) (lineage dir)"
    by simp
  have "\<not> (is_regular (files w1 q) \<and> q \<noteq> dir)" if q: "q \<in> set (lineage dir)" for q
  proof (cases "q = dir")
    case True
    then show ?thesis by simp
  next
    case False
    with q have nb: "\<not> beneath dir q"
      using above_and_beneath [of q dir] by (simp add: member_lineage)
    from noreg q False have "\<not> is_regular (files w q)"
      by (auto simp add: list_ex_iff)
    with nb q show ?thesis
      by (simp add: f1 is_regular_def)
  qed
  then have "\<not> list_ex (\<lambda>q. is_regular (files w1 q) \<and> q \<noteq> dir) (lineage dir)"
    by (auto simp add: list_ex_iff)
  from passive_reset_succeeds [OF assms(2) [folded w1_def] this]
  have second: "fst (passive_reset dir w1) = Inr r"
    using passive_reset_success [OF assms(1)] by simp
  have "files (snd (passive_reset dir w1)) q = files w1 q" for q
    by (simp add: passive_reset_files [OF second] f1)
  then have "files (snd (passive_reset dir w1)) = files w1"
    by (rule ext)
  with second show ?thesis
    by (simp add: f1 w1_def [symmetric])
qed

theorem passive_reset_idempotent_witness:
  "fst (passive_reset (raft_dir example_config) stale_disk) =
     Inr (BoltStore (filepath_Join (raft_dir example_config) ''state.bin''),
          \<lparr>snapshot_dir = filepath_Join (raft_dir example_config) ''snapshots'', retain = 5\<rparr>)
   \<and> no_fault_ahead 4 (snd (passive_reset (raft_dir example_config) stale_disk))
   \<and> fst (passive_reset (raft_dir example_config)
         (snd (passive_reset (raft_dir example_config) stale_disk))) =
     Inr (BoltStore (filepath_Join (raft_dir example_config) ''state.bin''),
          \<lparr>snapshot_dir = filepath_Join (raft_dir example_config) ''snapshots'', retain = 5\<rparr>)
   \<and> files (snd (passive_reset (raft_dir example_config)
               (snd (passive_reset (raft_dir example_config) stale_disk)))) =
       files (snd (passive_reset (raft_dir example_config) stale_disk))
   \<and> files (snd (passive_reset (raft_dir example_config) stale_disk))
         (filepath_Join (raft_dir example_config) ''state.bin'') = Some (Regular [])"
proof -
  note twice = passive_reset_idempotent [OF reset_stale_disk no_fault_stale_disk]
  have fresh: "files (snd (passive_reset (raft_dir example_config) stale_disk)) q =
      fresh_storage (raft_dir example_config) q" if "beneath (raft_dir example_config) q" for q
    using twice that by (cases q) auto
  show ?thesis
    using twice fresh [OF beneath_Join, of "''state.bin''"] reset_stale_disk no_fault_stale_disk
    by (simp add: fresh_storage_def Join_neq)
qed

subsection \<open>Peering.Raft\<close>






end
